theory Spec2Isabelle
  imports Main "HOL-Library.Sublist" "HOL-Library.Multiset"
begin

section \<open>The home screen: tasks, effects and handlers\<close>

text \<open>
  The home screen (\<^verbatim>\<open>src/unnamed/part_000\<close>, the component \<^verbatim>\<open>HomeScreen\<close>) keeps the task
  list in the React state variable \<^verbatim>\<open>tasks\<close> and changes it only through \<^verbatim>\<open>setTasks\<close>.
  A task is the object the API returns; the fields the screen reads are kept.
  The fields \<^verbatim>\<open>id\<close> and \<^verbatim>\<open>title\<close> are named \<open>task_id\<close> and \<open>task_title\<close> here
  (\<open>id\<close> is the identity function of HOL, \<open>title\<close> a state variable of the expense form).
  A task without a category has \<^verbatim>\<open>category_id\<close> null, which is \<open>None\<close>.
\<close>

record task =
  task_id :: nat
  task_title :: string
  description :: string
  due_date :: string
  status :: bool
  category_id :: "nat option"

text \<open>
  The payload of \<^verbatim>\<open>api.createExpense\<close> and \<^verbatim>\<open>api.updateExpense\<close>
  (\<^verbatim>\<open>NewExpenseScreen.js\<close>, lines 67-72). The amount is the number \<^verbatim>\<open>parseFloat(amount)\<close>;
  floating point is not modelled, so the number is kept as the text it is parsed from.
\<close>

datatype js_float = ParseFloat string

record expenseData =
  expense_title :: string
  expense_amount :: js_float
  expense_category :: string
  expense_date :: string

text \<open>
  A promise awaited by a handler either resolves with a value or rejects with an error,
  of which only \<^verbatim>\<open>error.message\<close> is kept (the empty string when it has none); a rejection
  transfers control to the \<^verbatim>\<open>catch\<close> block of the enclosing \<^verbatim>\<open>try\<close>.
  The services behind \<^verbatim>\<open>api\<close> and \<^verbatim>\<open>notificationService\<close> are imported modules: their
  outcomes are parameters of the handlers.
\<close>

datatype 'a promise = Resolved 'a | Rejected string

text \<open>
  Everything a handler does, in program order: calls of the state setters, of the remote
  API, of the notification service, of \<^verbatim>\<open>Alert.alert\<close> (title and message),
  \<^verbatim>\<open>console.error\<close> and the navigation.
\<close>

datatype effect =
    SetTasks "task list"
  | SetIsLoading bool
  | SetIsUpdating bool
  | Api_getTasks
  | Api_updateTaskStatus nat bool
  | Api_deleteTask nat
  | Api_createExpense expenseData
  | Api_updateExpense nat expenseData
  | ScheduleTaskReminder task
  | CancelTaskNotification nat
  | Alert string string
  | Console_error string
  | Navigation_goBack

fun is_remote :: "effect \<Rightarrow> bool" where
  "is_remote Api_getTasks = True"
| "is_remote (Api_updateTaskStatus _ _) = True"
| "is_remote (Api_deleteTask _) = True"
| "is_remote (Api_createExpense _) = True"
| "is_remote (Api_updateExpense _ _) = True"
| "is_remote _ = False"

text \<open>The part of a trace that precedes the first call of the remote API.\<close>

definition before_remote :: "effect list \<Rightarrow> effect list" where
  "before_remote tr = takeWhile (\<lambda>e. \<not> is_remote e) tr"

text \<open>The values written to \<^verbatim>\<open>tasks\<close>, the reminders scheduled and the error alerts of a trace.\<close>

fun mutation :: "effect \<Rightarrow> task list option" where
  "mutation (SetTasks ts) = Some ts"
| "mutation _ = None"

definition mutations :: "effect list \<Rightarrow> task list list" where
  "mutations tr = List.map_filter mutation tr"

fun reminder :: "effect \<Rightarrow> task option" where
  "reminder (ScheduleTaskReminder t) = Some t"
| "reminder _ = None"

definition reminders :: "effect list \<Rightarrow> task list" where
  "reminders tr = List.map_filter reminder tr"

fun error_alert :: "effect \<Rightarrow> string option" where
  "error_alert (Alert t m) = (if t = ''Error'' then Some m else None)"
| "error_alert _ = None"

definition error_alerts :: "effect list \<Rightarrow> string list" where
  "error_alerts tr = List.map_filter error_alert tr"

text \<open>
  The state \<^verbatim>\<open>tasks\<close> after a handler has run from the state \<open>prevTasks\<close>: the last value
  written, or \<open>prevTasks\<close> when the handler never called \<^verbatim>\<open>setTasks\<close>.
\<close>

definition tasks_after :: "task list \<Rightarrow> effect list \<Rightarrow> task list" where
  "tasks_after prevTasks tr = last (prevTasks # mutations tr)"

subsection \<open>Loading\<close>

text \<open>
  \<^verbatim>\<open>fetchTasks\<close> (lines 27-43). The function has no \<^verbatim>\<open>return\<close> statement: its promise
  resolves to \<^verbatim>\<open>undefined\<close>. \<^verbatim>\<open>scheduleTaskReminder\<close> is called without \<^verbatim>\<open>await\<close>,
  once for each task of the response whose \<^verbatim>\<open>status\<close> is false, in order.
\<close>

datatype js_value = Undefined | Number nat

definition fetchTasks :: "task list promise \<Rightarrow> js_value \<times> effect list" where
  "fetchTasks getTasks =
     (Undefined,
      [SetIsLoading True, Api_getTasks] @
      (case getTasks of
         Resolved response \<Rightarrow>
           SetTasks response #
           map ScheduleTaskReminder (filter (\<lambda>task. \<not> status task) response)
       | Rejected _ \<Rightarrow> [Alert ''Error'' ''Failed to fetch tasks'']) @
      [SetIsLoading False])"

subsection \<open>Changing the status\<close>

text \<open>
  \<^verbatim>\<open>handleToggleStatus\<close> (lines 87-111). The remote update is awaited first. When it
  resolves, the updater passed to \<^verbatim>\<open>setTasks\<close> maps over the previous list; for each
  task with the given id it builds the updated task and calls \<^verbatim>\<open>scheduleTaskReminder\<close>
  on it (inside the updater, so before the new list is stored). The updater is taken to
  run when \<^verbatim>\<open>setTasks\<close> is called, on the state the handler started from.
\<close>

definition handleToggleStatus ::
  "unit promise \<Rightarrow> nat \<Rightarrow> bool \<Rightarrow> task list \<Rightarrow> effect list" where
  "handleToggleStatus updateTaskStatus taskId currentStatus prevTasks =
     (let newStatus = \<not> currentStatus in
      [SetIsUpdating True, Api_updateTaskStatus taskId newStatus] @
      (case updateTaskStatus of
         Resolved _ \<Rightarrow>
           map (\<lambda>task. ScheduleTaskReminder (task\<lparr>status := newStatus\<rparr>))
             (filter (\<lambda>task. task_id task = taskId) prevTasks) @
           [SetTasks (map (\<lambda>task. if task_id task = taskId
                                   then task\<lparr>status := newStatus\<rparr> else task) prevTasks),
            Alert ''Success''
              (''Task marked as '' @ (if newStatus then ''completed'' else ''incomplete''))]
       | Rejected _ \<Rightarrow>
           [Alert ''Error'' ''Failed to update task status'',
            Console_error ''Update status error:'']) @
      [SetIsUpdating False])"

text \<open>
  \<^verbatim>\<open>TaskCard.handleStatusChange\<close> (lines 173-191); \<open>task\<close> is the task the card was
  rendered for.
\<close>

definition handleStatusChange :: "unit promise \<Rightarrow> task \<Rightarrow> task list \<Rightarrow> effect list" where
  "handleStatusChange updateTaskStatus task prevTasks =
     [SetIsUpdating True, Api_updateTaskStatus (task_id task) (\<not> status task)] @
     (case updateTaskStatus of
        Resolved _ \<Rightarrow>
          [SetTasks (map (\<lambda>t. if task_id t = task_id task
                                then t\<lparr>status := \<not> status task\<rparr> else t) prevTasks),
           ScheduleTaskReminder (task\<lparr>status := \<not> status task\<rparr>)]
      | Rejected _ \<Rightarrow> [Alert ''Error'' ''Failed to update task status'']) @
     [SetIsUpdating False]"

subsection \<open>Deleting\<close>

text \<open>
  Both delete handlers first open a confirmation dialog (\<^verbatim>\<open>Alert.alert\<close> with the
  buttons Cancel and Delete, \<^verbatim>\<open>cancelable: true\<close>); the work is the \<^verbatim>\<open>onPress\<close> of the
  Delete button.
\<close>

datatype dialog_choice = Cancel | Delete | Dismissed

text \<open>
  \<^verbatim>\<open>handleDeleteTask\<close> (lines 117-147). \<^verbatim>\<open>cancelTaskNotification\<close> is awaited inside
  the \<^verbatim>\<open>try\<close> block, after \<^verbatim>\<open>setTasks\<close>.
\<close>

definition handleDeleteTask ::
  "dialog_choice \<Rightarrow> unit promise \<Rightarrow> unit promise \<Rightarrow> nat \<Rightarrow> task list \<Rightarrow> effect list" where
  "handleDeleteTask choice deleteTask cancelNotification taskId prevTasks =
     Alert ''Delete Task'' ''Are you sure you want to delete this task?'' #
     (case choice of
        Delete \<Rightarrow>
          [SetIsUpdating True, Api_deleteTask taskId] @
          (case deleteTask of
             Resolved _ \<Rightarrow>
               [SetTasks (filter (\<lambda>task. task_id task \<noteq> taskId) prevTasks),
                CancelTaskNotification taskId] @
               (case cancelNotification of
                  Resolved _ \<Rightarrow> []
                | Rejected _ \<Rightarrow>
                    [Alert ''Error'' ''Failed to delete task'',
                     Console_error ''Delete task error:''])
           | Rejected _ \<Rightarrow>
               [Alert ''Error'' ''Failed to delete task'',
                Console_error ''Delete task error:'']) @
          [SetIsUpdating False]
      | _ \<Rightarrow> [])"

text \<open>
  \<^verbatim>\<open>TaskCard.handleDelete\<close> (lines 193-222); \<open>task\<close> is the task the card was rendered
  for. In the filter callback the parameter is named \<^verbatim>\<open>task\<close> too and hides the card's
  task, exactly as the bound variable does here: the test is
  \<^verbatim>\<open>task.id !== task.id\<close> on the element itself.
\<close>

definition handleDelete ::
  "dialog_choice \<Rightarrow> unit promise \<Rightarrow> unit promise \<Rightarrow> task \<Rightarrow> task list \<Rightarrow> effect list" where
  "handleDelete choice deleteTask cancelNotification task prevTasks =
     Alert ''Delete Task'' ''Are you sure you want to delete this task?'' #
     (case choice of
        Delete \<Rightarrow>
          [SetIsUpdating True, Api_deleteTask (task_id task)] @
          (case deleteTask of
             Resolved _ \<Rightarrow>
               [SetTasks (filter (\<lambda>task. task_id task \<noteq> task_id task) prevTasks),
                CancelTaskNotification (task_id task)] @
               (case cancelNotification of
                  Resolved _ \<Rightarrow> []
                | Rejected _ \<Rightarrow> [Alert ''Error'' ''Failed to delete task''])
           | Rejected _ \<Rightarrow> [Alert ''Error'' ''Failed to delete task'']) @
          [SetIsUpdating False]
      | _ \<Rightarrow> [])"

subsection \<open>The derived views\<close>

text \<open>
  \<^verbatim>\<open>filteredTasks\<close> (lines 168-170); \<open>selectedCategory\<close> is \<open>None\<close> for the
  "All Tasks" entry, whose id is null.
\<close>

definition filteredTasks :: "nat option \<Rightarrow> task list \<Rightarrow> task list" where
  "filteredTasks selectedCategory tasks =
     filter (\<lambda>task. selectedCategory = None \<or> category_id task = selectedCategory) tasks"

text \<open>
  The two sections of the screen (lines 324-328 and 341-345): "In Progress" renders
  \<^verbatim>\<open>filteredTasks.filter(task => !task.status)\<close>, "Completed" renders
  \<^verbatim>\<open>filteredTasks.filter(task => task.status)\<close>.
\<close>

definition inProgress :: "task list \<Rightarrow> task list" where
  "inProgress fts = filter (\<lambda>task. \<not> status task) fts"

definition completed :: "task list \<Rightarrow> task list" where
  "completed fts = filter (\<lambda>task. status task) fts"

section \<open>The expense form\<close>

subsection \<open>Strings and numbers of the language\<close>

text \<open>
  The built-in functions the form calls, after ECMA-262. Strings are ASCII texts, so the
  white space that \<^verbatim>\<open>trim\<close> and the number conversions strip is tab, line feed,
  vertical tab, form feed, carriage return and space.
\<close>

definition is_ws :: "char \<Rightarrow> bool" where
  "is_ws c = (c \<in> set [CHR 0x09, CHR 0x0A, CHR 0x0B, CHR 0x0C, CHR 0x0D, CHR '' ''])"

definition trimStart :: "string \<Rightarrow> string" where
  "trimStart s = dropWhile is_ws s"

definition trim :: "string \<Rightarrow> string" where
  "trim s = rev (dropWhile is_ws (rev (dropWhile is_ws s)))"

definition is_digit :: "char \<Rightarrow> bool" where
  "is_digit c = (48 \<le> (of_char c :: nat) \<and> (of_char c :: nat) \<le> 57)"

definition is_hex_digit :: "char \<Rightarrow> bool" where
  "is_hex_digit c =
     (is_digit c \<or> (97 \<le> (of_char c :: nat) \<and> (of_char c :: nat) \<le> 102)
                \<or> (65 \<le> (of_char c :: nat) \<and> (of_char c :: nat) \<le> 70))"

definition digit_value :: "char \<Rightarrow> nat" where
  "digit_value c =
     (if is_digit c then of_char c - 48
      else if 97 \<le> (of_char c :: nat) then of_char c - 87 else of_char c - 55)"

definition digits_value :: "nat \<Rightarrow> string \<Rightarrow> nat" where
  "digits_value radix ds = foldl (\<lambda>a c. radix * a + digit_value c) 0 ds"

text \<open>
  A number as the date parser meets it: not-a-number, an integer that a double holds
  exactly, or any other number (a fraction, an infinity, an integer beyond \<open>2^53\<close>),
  whose value is not computed here.
\<close>

datatype js_number = NaN | Integer int | Other_number

definition js_integer :: "int \<Rightarrow> js_number" where
  "js_integer v = (if \<bar>v\<bar> \<le> 2 ^ 53 then Integer v else Other_number)"

text \<open>
  The grammar \<^verbatim>\<open>StrNumericLiteral\<close> of the conversion from strings to numbers: an
  optionally signed \<^verbatim>\<open>Infinity\<close> or decimal literal (digits, an optional fraction, an
  optional exponent; a digit on at least one side of the point), or an unsigned
  hexadecimal, octal or binary integer.
\<close>

definition signed_integer :: "string \<Rightarrow> bool" where
  "signed_integer s =
     (let t = (case s of [] \<Rightarrow> [] | c # r \<Rightarrow> if c = CHR ''+'' \<or> c = CHR ''-'' then r else s)
      in t \<noteq> [] \<and> list_all is_digit t)"

definition exponent_part_opt :: "string \<Rightarrow> bool" where
  "exponent_part_opt s =
     (case s of [] \<Rightarrow> True | c # r \<Rightarrow> (c = CHR ''e'' \<or> c = CHR ''E'') \<and> signed_integer r)"

definition str_unsigned_decimal_literal :: "string \<Rightarrow> bool" where
  "str_unsigned_decimal_literal s =
     (s = ''Infinity'' \<or>
      (let ip = takeWhile is_digit s; r = dropWhile is_digit s in
       case r of
         [] \<Rightarrow> ip \<noteq> []
       | c # r' \<Rightarrow>
           if c = CHR ''.''
           then (ip \<noteq> [] \<or> takeWhile is_digit r' \<noteq> []) \<and> exponent_part_opt (dropWhile is_digit r')
           else ip \<noteq> [] \<and> exponent_part_opt r))"

definition str_decimal_literal :: "string \<Rightarrow> bool" where
  "str_decimal_literal s =
     (case s of
        [] \<Rightarrow> False
      | c # r \<Rightarrow> if c = CHR ''+'' \<or> c = CHR ''-'' then str_unsigned_decimal_literal r
                 else str_unsigned_decimal_literal s)"

definition non_decimal_integer_literal :: "string \<Rightarrow> bool" where
  "non_decimal_integer_literal s =
     (case s of
        c0 # c1 # r \<Rightarrow>
          c0 = CHR ''0'' \<and> r \<noteq> [] \<and>
          ((c1 = CHR ''x'' \<or> c1 = CHR ''X'') \<and> list_all is_hex_digit r
           \<or> (c1 = CHR ''o'' \<or> c1 = CHR ''O'') \<and> list_all (\<lambda>c. c \<in> set ''01234567'') r
           \<or> (c1 = CHR ''b'' \<or> c1 = CHR ''B'') \<and> list_all (\<lambda>c. c \<in> set ''01'') r)
      | _ \<Rightarrow> False)"

definition str_numeric_literal :: "string \<Rightarrow> bool" where
  "str_numeric_literal s = (str_decimal_literal s \<or> non_decimal_integer_literal s)"

text \<open>
  \<^verbatim>\<open>ToNumber\<close> of a string or of \<^verbatim>\<open>undefined\<close> (\<open>None\<close>): \<^verbatim>\<open>undefined\<close> and a text
  outside the grammar give not-a-number, the empty text gives 0.
\<close>

definition ToNumber :: "string option \<Rightarrow> js_number" where
  "ToNumber arg =
     (case arg of
        None \<Rightarrow> NaN
      | Some s \<Rightarrow>
          (let t = trim s in
           if t = [] then Integer 0
           else if \<not> str_numeric_literal t then NaN
           else if list_all is_digit t then js_integer (int (digits_value 10 t))
           else if hd t = CHR ''+'' \<and> list_all is_digit (tl t)
             then js_integer (int (digits_value 10 (tl t)))
           else if hd t = CHR ''-'' \<and> list_all is_digit (tl t)
             then js_integer (- int (digits_value 10 (tl t)))
           else Other_number))"

text \<open>\<^verbatim>\<open>isNaN(amount)\<close>, the global function applied to a string: it converts first.\<close>

definition isNaN :: "string \<Rightarrow> bool" where
  "isNaN s = (ToNumber (Some s) = NaN)"

text \<open>
  \<^verbatim>\<open>parseInt\<close> with no radix: leading white space is dropped, then a sign, then a
  \<^verbatim>\<open>0x\<close> prefix (which selects radix 16); the longest prefix of digits is the value,
  and none gives not-a-number. \<^verbatim>\<open>undefined\<close> is converted to the text "undefined" first.
\<close>

definition parseInt :: "string option \<Rightarrow> js_number" where
  "parseInt arg =
     (let s0 = trimStart (case arg of None \<Rightarrow> ''undefined'' | Some s \<Rightarrow> s);
          negative = (s0 \<noteq> [] \<and> hd s0 = CHR ''-'');
          s1 = (if s0 \<noteq> [] \<and> (hd s0 = CHR ''+'' \<or> hd s0 = CHR ''-'') then tl s0 else s0);
          hex = (2 \<le> length s1 \<and> s1 ! 0 = CHR ''0'' \<and> (s1 ! 1 = CHR ''x'' \<or> s1 ! 1 = CHR ''X''));
          z = (if hex then takeWhile is_hex_digit (drop 2 s1) else takeWhile is_digit s1);
          v = int (digits_value (if hex then 16 else 10) z)
      in if z = [] then NaN else js_integer (if negative then - v else v))"

text \<open>The decimal text of an integer, as a template literal prints it.\<close>

definition digit_char :: "nat \<Rightarrow> char" where
  "digit_char n = ''0123456789'' ! n"

fun string_of_nat :: "nat \<Rightarrow> string" where
  "string_of_nat n =
     (if n < 10 then [digit_char n]
      else string_of_nat (n div 10) @ [digit_char (n mod 10)])"

definition string_of_int :: "int \<Rightarrow> string" where
  "string_of_int i =
     (if i < 0 then CHR ''-'' # string_of_nat (nat (- i)) else string_of_nat (nat i))"

text \<open>
  \<^verbatim>\<open>s.split(' ')\<close> with a one-character separator, \<^verbatim>\<open>s.replace(',', '')\<close> (a string
  pattern replaces its first occurrence only, which is \<^const>\<open>remove1\<close>), the element of an
  array at an index (\<^verbatim>\<open>undefined\<close> past the end) and \<^verbatim>\<open>indexOf\<close> (\<open>-1\<close> when
  nothing is strictly equal; \<^verbatim>\<open>undefined\<close> equals no string).
\<close>

fun split_on :: "char \<Rightarrow> string \<Rightarrow> string list" where
  "split_on c [] = [[]]"
| "split_on c (x # xs) =
     (if x = c then [] # split_on c xs
      else (case split_on c xs of [] \<Rightarrow> [[x]] | w # ws \<Rightarrow> (x # w) # ws))"

definition element :: "'a list \<Rightarrow> nat \<Rightarrow> 'a option" where
  "element xs i = (if i < length xs then Some (xs ! i) else None)"

fun index_from :: "int \<Rightarrow> string list \<Rightarrow> string \<Rightarrow> int" where
  "index_from i [] s = - 1"
| "index_from i (x # xs) s = (if x = s then i else index_from (i + 1) xs s)"

definition indexOf :: "string list \<Rightarrow> string option \<Rightarrow> int" where
  "indexOf xs arg = (case arg of None \<Rightarrow> - 1 | Some s \<Rightarrow> index_from 0 xs s)"

subsection \<open>Dates\<close>

text \<open>
  A \<^verbatim>\<open>Date\<close> is read through \<^verbatim>\<open>getFullYear\<close>, \<^verbatim>\<open>getMonth\<close> and \<^verbatim>\<open>getDate\<close> only:
  it is the invalid date or a local calendar day (year, month index from 0, day of the
  month). The calendar is the proleptic Gregorian one.
\<close>

datatype Date = Invalid_Date | Date int nat nat

definition leap_year :: "int \<Rightarrow> bool" where
  "leap_year y = (y mod 4 = 0 \<and> (y mod 100 \<noteq> 0 \<or> y mod 400 = 0))"

definition days_in_month :: "int \<Rightarrow> nat \<Rightarrow> int" where
  "days_in_month y m =
     (if m = 1 then (if leap_year y then 29 else 28)
      else if m = 3 \<or> m = 5 \<or> m = 8 \<or> m = 10 then 30 else 31)"

text \<open>
  \<^verbatim>\<open>new Date(year, monthIndex, day)\<close> counts \<open>day - 1\<close> days from the first of the month:
  a day outside the month carries into the following or preceding months.
\<close>

function day_carry :: "int \<Rightarrow> nat \<Rightarrow> int \<Rightarrow> Date" where
  "day_carry y m d =
     (if d < 1 then
        (if m = 0 then day_carry (y - 1) 11 (d + days_in_month (y - 1) 11)
         else day_carry y (m - 1) (d + days_in_month y (m - 1)))
      else if days_in_month y m < d then
        (if 11 \<le> m then day_carry (y + 1) 0 (d - days_in_month y m)
         else day_carry y (m + 1) (d - days_in_month y m))
      else Date y m (nat d))"
  by pat_completeness auto
termination
  by (relation "measure (\<lambda>(y, m, d). nat (if d < 1 then 32 - d else d))")
     (auto simp: days_in_month_def)

text \<open>
  The constructor converts its arguments to numbers; not-a-number gives the invalid
  date, a year from 0 to 99 means 1900 to 1999, and a month index outside 0..11 carries
  into the year. The result is computed for integer arguments in a window that keeps
  the day far inside the range of time values (about 270000 years either side of 1970);
  outside the window the model gives no result (\<open>None\<close>).
\<close>

definition new_Date :: "js_number \<Rightarrow> int \<Rightarrow> js_number \<Rightarrow> Date option" where
  "new_Date year monthIndex day =
     (case (year, day) of
        (NaN, _) \<Rightarrow> Some Invalid_Date
      | (_, NaN) \<Rightarrow> Some Invalid_Date
      | (Integer y, Integer d) \<Rightarrow>
          if \<bar>y\<bar> \<le> 200000 \<and> \<bar>monthIndex\<bar> \<le> 12000 \<and> \<bar>d\<bar> \<le> 1000000 then
            (let yr = (if 0 \<le> y \<and> y \<le> 99 then 1900 + y else y)
             in Some (day_carry (yr + monthIndex div 12) (nat (monthIndex mod 12)) d))
          else None
      | _ \<Rightarrow> None)"

subsection \<open>The screen\<close>

definition months :: "string list" where
  "months = [''Jan'', ''Feb'', ''Mar'', ''Apr'', ''May'', ''Jun'',
             ''Jul'', ''Aug'', ''Sep'', ''Oct'', ''Nov'', ''Dec'']"

text \<open>
  \<^verbatim>\<open>formatDate\<close> (\<^verbatim>\<open>NewExpenseScreen.js\<close>, lines 39-45). For the invalid date the three
  getters return not-a-number, \<^verbatim>\<open>months[NaN]\<close> is \<^verbatim>\<open>undefined\<close>, and the template prints
  "undefined NaN, NaN".
\<close>

definition formatDate :: "Date \<Rightarrow> string" where
  "formatDate date =
     (case date of
        Invalid_Date \<Rightarrow> ''undefined NaN, NaN''
      | Date y m d \<Rightarrow>
          (let month = (case element months m of None \<Rightarrow> ''undefined'' | Some s \<Rightarrow> s);
               day = string_of_nat d;
               year = string_of_int y
           in month @ '' '' @ day @ '', '' @ year))"

text \<open>
  The initial value of \<^verbatim>\<open>selectedDate\<close> (lines 26-35). \<open>parse_expense_date\<close> is the body
  of the \<^verbatim>\<open>if\<close> (lines 29-32); \<open>date_text\<close> is \<^verbatim>\<open>editingExpense?.expense_date\<close>,
  \<open>None\<close> when there is no expense to edit or it has no date, and \<open>now\<close> is what
  \<^verbatim>\<open>new Date()\<close> returns.
\<close>

definition parse_expense_date :: "string \<Rightarrow> Date option" where
  "parse_expense_date s =
     (let parts = split_on (CHR '' '') (remove1 (CHR '','') s);
          month = element parts 0;
          day = element parts 1;
          year = element parts 2;
          monthIndex = indexOf months month
      in new_Date (ToNumber year) monthIndex (parseInt day))"

definition selectedDate_initial :: "Date \<Rightarrow> string option \<Rightarrow> Date option" where
  "selectedDate_initial now date_text =
     (case date_text of
        None \<Rightarrow> Some now
      | Some s \<Rightarrow> if s \<noteq> [] then parse_expense_date s else Some now)"

text \<open>
  \<^verbatim>\<open>handleSave\<close> (lines 54-87). \<open>editing\<close> is the id of the expense being edited,
  \<open>None\<close> when a new expense is entered; \<open>save\<close> is the outcome of the one API call the
  handler makes.
\<close>

definition handleSave ::
  "unit promise \<Rightarrow> nat option \<Rightarrow> string \<Rightarrow> string \<Rightarrow> string \<Rightarrow> Date \<Rightarrow> effect list" where
  "handleSave save editing title amount category selectedDate =
     (if trim title = [] then [Alert ''Error'' ''Please enter an expense title'']
      else if trim amount = [] \<or> isNaN amount
        then [Alert ''Error'' ''Please enter a valid amount'']
      else
        (let expenseData = \<lparr>expense_title = title, expense_amount = ParseFloat amount,
               expense_category = category, expense_date = formatDate selectedDate\<rparr>
         in
         [SetIsLoading True] @
         (case editing of
            Some expense_id \<Rightarrow>
              Api_updateExpense expense_id expenseData #
              (case save of
                 Resolved _ \<Rightarrow>
                   [Alert ''Success'' ''Expense updated successfully'', Navigation_goBack]
               | Rejected message \<Rightarrow>
                   [Alert ''Error'' (if message \<noteq> [] then message else ''Failed to save expense'')])
          | None \<Rightarrow>
              Api_createExpense expenseData #
              (case save of
                 Resolved _ \<Rightarrow>
                   [Alert ''Success'' ''Expense added successfully'', Navigation_goBack]
               | Rejected message \<Rightarrow>
                   [Alert ''Error'' (if message \<noteq> [] then message else ''Failed to save expense'')])) @
         [SetIsLoading False]))"

text \<open>A task for the examples.\<close>

definition example_task :: "nat \<Rightarrow> bool \<Rightarrow> task" where
  "example_task i st = \<lparr>task_id = i, task_title = ''X'', description = [], due_date = [],
     status = st, category_id = None\<rparr>"


section \<open>Properties of the home screen\<close>

subsection \<open>Reading a trace\<close>

lemma before_remote_simps:
  "before_remote [] = []"
  "before_remote (e # tr) = (if is_remote e then [] else e # before_remote tr)"
  by (simp_all add: before_remote_def)

lemma mutations_simps:
  "mutations [] = []"
  "mutations (e # tr) = (case mutation e of None \<Rightarrow> mutations tr | Some ts \<Rightarrow> ts # mutations tr)"
  "mutations (tr @ tr') = mutations tr @ mutations tr'"
  by (simp_all add: mutations_def List.map_filter_def split: option.splits)

lemma reminders_simps:
  "reminders [] = []"
  "reminders (e # tr) = (case reminder e of None \<Rightarrow> reminders tr | Some t \<Rightarrow> t # reminders tr)"
  "reminders (tr @ tr') = reminders tr @ reminders tr'"
  by (simp_all add: reminders_def List.map_filter_def split: option.splits)

lemma error_alerts_simps:
  "error_alerts [] = []"
  "error_alerts (e # tr) =
     (case error_alert e of None \<Rightarrow> error_alerts tr | Some m \<Rightarrow> m # error_alerts tr)"
  "error_alerts (tr @ tr') = error_alerts tr @ error_alerts tr'"
  by (simp_all add: error_alerts_def List.map_filter_def split: option.splits)

lemma mutations_map_reminder: "mutations (map (\<lambda>x. ScheduleTaskReminder (f x)) xs) = []"
  by (induction xs) (simp_all add: mutations_simps)

lemma error_alerts_map_reminder: "error_alerts (map (\<lambda>x. ScheduleTaskReminder (f x)) xs) = []"
  by (induction xs) (simp_all add: error_alerts_simps)

lemma reminders_map_reminder: "reminders (map (\<lambda>x. ScheduleTaskReminder (f x)) xs) = map f xs"
  by (induction xs) (simp_all add: reminders_simps)

lemmas trace_simps =
  before_remote_simps mutations_simps reminders_simps error_alerts_simps
  mutations_map_reminder error_alerts_map_reminder reminders_map_reminder tasks_after_def Let_def

subsection \<open>Status changes\<close>

text \<open>
  Claim C1, as the code has it. Both status handlers call the remote API first: no write
  to \<^verbatim>\<open>tasks\<close> precedes the remote update, whatever its outcome. When the remote
  update is rejected the handler never writes \<^verbatim>\<open>tasks\<close> at all, so the list after the
  call is the list before it (there is nothing to roll back), and exactly one error
  alert, "Failed to update task status", is shown. When it resolves, the status of
  every task with the given id is replaced and no error is shown.
\<close>

theorem C1_update_after_remote:
  "mutations (before_remote (handleToggleStatus r taskId currentStatus prevTasks)) = []
   \<and> mutations (before_remote (handleStatusChange r task prevTasks)) = []
   \<and> mutations (handleToggleStatus (Rejected msg) taskId currentStatus prevTasks) = []
   \<and> mutations (handleStatusChange (Rejected msg) task prevTasks) = []
   \<and> tasks_after prevTasks (handleToggleStatus (Rejected msg) taskId currentStatus prevTasks)
       = prevTasks
   \<and> tasks_after prevTasks (handleStatusChange (Rejected msg) task prevTasks) = prevTasks
   \<and> error_alerts (handleToggleStatus (Rejected msg) taskId currentStatus prevTasks)
       = [''Failed to update task status'']
   \<and> error_alerts (handleStatusChange (Rejected msg) task prevTasks)
       = [''Failed to update task status'']
   \<and> tasks_after prevTasks (handleToggleStatus (Resolved ()) taskId currentStatus prevTasks)
       = map (\<lambda>t. if task_id t = taskId then t\<lparr>status := \<not> currentStatus\<rparr> else t) prevTasks
   \<and> tasks_after prevTasks (handleStatusChange (Resolved ()) task prevTasks)
       = map (\<lambda>t. if task_id t = task_id task then t\<lparr>status := \<not> status task\<rparr> else t)
           prevTasks
   \<and> error_alerts (handleToggleStatus (Resolved ()) taskId currentStatus prevTasks) = []
   \<and> error_alerts (handleStatusChange (Resolved ()) task prevTasks) = []"
  by (simp add: handleToggleStatus_def handleStatusChange_def trace_simps split: promise.split)

text \<open>
  Claim C1 as stated fails: it has the patch applied to the local copy before the
  remote update is issued. On the store holding the one task with id 5 and status false,
  toggled to true, no write to \<^verbatim>\<open>tasks\<close> precedes the remote call, neither when the
  call is rejected nor when it resolves; on the rejected run there is no write at all.
\<close>

theorem C1_update_counterexample:
  "mutations (before_remote
      (handleToggleStatus (Rejected []) 5 False [example_task 5 False])) = []
   \<and> mutations (before_remote
      (handleToggleStatus (Resolved ()) 5 False [example_task 5 False])) = []
   \<and> mutations (handleToggleStatus (Rejected []) 5 False [example_task 5 False]) = []
   \<and> mutations (before_remote
      (handleStatusChange (Rejected []) (example_task 5 False) [example_task 5 False])) = []
   \<and> mutations (handleStatusChange (Rejected []) (example_task 5 False) [example_task 5 False])
       = []"
  by (simp add: handleToggleStatus_def handleStatusChange_def trace_simps)

text \<open>
  Claim C5, as the code has it. The reminder is scheduled only after the remote update
  has resolved: no reminder precedes the remote call, and on a run where the remote
  update is rejected no reminder is scheduled at all. On a resolved run
  \<^verbatim>\<open>handleToggleStatus\<close> schedules one reminder for each task with the given id, carrying
  the new status, and \<^verbatim>\<open>handleStatusChange\<close> one for the card's task with its status
  negated.
\<close>

theorem C5_reminder_after_remote_success:
  "reminders (handleToggleStatus (Rejected msg) taskId currentStatus prevTasks) = []
   \<and> reminders (handleStatusChange (Rejected msg) task prevTasks) = []
   \<and> reminders (before_remote (handleToggleStatus r taskId currentStatus prevTasks)) = []
   \<and> reminders (before_remote (handleStatusChange r task prevTasks)) = []
   \<and> reminders (handleToggleStatus (Resolved ()) taskId currentStatus prevTasks)
       = map (\<lambda>t. t\<lparr>status := \<not> currentStatus\<rparr>) (filter (\<lambda>t. task_id t = taskId) prevTasks)
   \<and> reminders (handleStatusChange (Resolved ()) task prevTasks)
       = [task\<lparr>status := \<not> status task\<rparr>]"
  by (simp add: handleToggleStatus_def handleStatusChange_def trace_simps split: promise.split)

text \<open>
  Claim C5 as stated fails: it has the reminder emitted even on a run where the remote
  update fails. Toggling the task with id 5 while the remote update is rejected
  schedules no reminder, in either handler.
\<close>

theorem C5_reminder_counterexample:
  "reminders (handleToggleStatus (Rejected []) 5 False [example_task 5 False]) = []
   \<and> reminders (handleStatusChange (Rejected []) (example_task 5 False) [example_task 5 False])
       = []"
  by (simp add: handleToggleStatus_def handleStatusChange_def trace_simps)

subsection \<open>Deleting\<close>

text \<open>
  Claim C2, as the code has it. \<^verbatim>\<open>handleDeleteTask\<close> calls the remote API first: no
  write to \<^verbatim>\<open>tasks\<close> precedes the remote delete. When the remote delete is rejected
  the handler never writes \<^verbatim>\<open>tasks\<close>, so the list after the call is the list before it
  (nothing is removed, nothing is reinserted), and exactly one error alert, "Failed to
  delete task", is shown. When it resolves, the tasks with the given id are filtered out.
\<close>

theorem C2_remove_after_remote:
  "mutations (before_remote (handleDeleteTask choice d c taskId prevTasks)) = []
   \<and> mutations (handleDeleteTask Delete (Rejected msg) c taskId prevTasks) = []
   \<and> tasks_after prevTasks (handleDeleteTask Delete (Rejected msg) c taskId prevTasks) = prevTasks
   \<and> error_alerts (handleDeleteTask Delete (Rejected msg) c taskId prevTasks)
       = [''Failed to delete task'']
   \<and> tasks_after prevTasks (handleDeleteTask Delete (Resolved ()) c taskId prevTasks)
       = filter (\<lambda>t. task_id t \<noteq> taskId) prevTasks"
  by (simp add: handleDeleteTask_def trace_simps split: dialog_choice.split promise.split)

text \<open>
  Claim C2 as stated fails: it has the entity removed from the local collection before
  the remote delete is issued. Deleting task 1 from the tasks 1 and 2, no write to
  \<^verbatim>\<open>tasks\<close> precedes the remote call, and on the rejected run there is no write at all.
\<close>

theorem C2_remove_counterexample:
  "mutations (before_remote (handleDeleteTask Delete (Rejected []) (Resolved ()) 1
      [example_task 1 False, example_task 2 False])) = []
   \<and> mutations (before_remote (handleDeleteTask Delete (Resolved ()) (Resolved ()) 1
      [example_task 1 False, example_task 2 False])) = []
   \<and> mutations (handleDeleteTask Delete (Rejected []) (Resolved ()) 1
      [example_task 1 False, example_task 2 False]) = []"
  by (simp add: handleDeleteTask_def trace_simps)

text \<open>
  The delete handler of the screen keeps every task with another id, in order. The card's
  handler does not: its filter compares each element with itself, so a confirmed and
  successful delete empties the list, whatever it held.
\<close>

lemma handleDeleteTask_removes_only_id:
  "tasks_after prevTasks (handleDeleteTask Delete (Resolved ()) c taskId prevTasks)
     = filter (\<lambda>t. task_id t \<noteq> taskId) prevTasks"
  by (simp add: handleDeleteTask_def trace_simps split: promise.split)

lemma handleDelete_clears:
  "tasks_after prevTasks (handleDelete Delete (Resolved ()) c task prevTasks) = []"
  by (simp add: handleDelete_def trace_simps split: promise.split)

text \<open>
  Claim C3 (a successful remove deletes exactly the entity with the given id) on the
  card's handler \<^verbatim>\<open>TaskCard.handleDelete\<close>: with the tasks 1 and 2 in the list, deleting
  from the card of task 1 leaves the empty list. Task 2 is gone as well.
\<close>

theorem C3_card_delete_clears_list:
  "tasks_after [example_task 1 False, example_task 2 False]
     (handleDelete Delete (Resolved ()) (Resolved ()) (example_task 1 False)
        [example_task 1 False, example_task 2 False]) = []"
  by (simp add: handleDelete_def trace_simps)

text \<open>
  Claim C9 (a failure of the reminder call is never surfaced as an error) on
  \<^verbatim>\<open>handleDeleteTask\<close>: the remote delete resolves, the task is removed from the list,
  and the rejection of \<^verbatim>\<open>cancelTaskNotification\<close> then reaches the \<^verbatim>\<open>catch\<close> block, which
  shows "Failed to delete task". With the notification call resolving there is no alert.
  The list is the same in both runs.
\<close>

theorem C9_reminder_failure_shown_as_delete_failure:
  "error_alerts (handleDeleteTask Delete (Resolved ()) (Rejected []) 1 [example_task 1 False])
     = [''Failed to delete task'']
   \<and> tasks_after [example_task 1 False]
        (handleDeleteTask Delete (Resolved ()) (Rejected []) 1 [example_task 1 False]) = []
   \<and> error_alerts (handleDeleteTask Delete (Resolved ()) (Resolved ()) 1 [example_task 1 False])
       = []
   \<and> tasks_after [example_task 1 False]
        (handleDeleteTask Delete (Resolved ()) (Resolved ()) 1 [example_task 1 False]) = []"
  by (simp add: handleDeleteTask_def trace_simps example_task_def)

subsection \<open>Loading\<close>

text \<open>
  Claim C6, as the code has it. When the remote call resolves, \<^verbatim>\<open>fetchTasks\<close> writes
  \<^verbatim>\<open>tasks\<close> once, with the whole response, and shows no error; when it is rejected,
  \<^verbatim>\<open>tasks\<close> is never written, so the previous list stays, and the error alert "Failed
  to fetch tasks" is shown. In both cases the function returns \<^verbatim>\<open>undefined\<close>: no count
  is returned.
\<close>

theorem C6_load_replaces_or_keeps:
  "tasks_after prevTasks (snd (fetchTasks (Resolved response))) = response
   \<and> mutations (snd (fetchTasks (Resolved response))) = [response]
   \<and> error_alerts (snd (fetchTasks (Resolved response))) = []
   \<and> tasks_after prevTasks (snd (fetchTasks (Rejected msg))) = prevTasks
   \<and> mutations (snd (fetchTasks (Rejected msg))) = []
   \<and> error_alerts (snd (fetchTasks (Rejected msg))) = [''Failed to fetch tasks'']
   \<and> fst (fetchTasks r) = Undefined"
  by (simp add: fetchTasks_def trace_simps)

text \<open>
  Claim C6 as stated fails: it has the load return the count of entities loaded. Loading
  two tasks returns \<^verbatim>\<open>undefined\<close>, not the number 2.
\<close>

theorem C6_load_counterexample:
  "fst (fetchTasks (Resolved [example_task 1 False, example_task 2 True])) = Undefined
   \<and> fst (fetchTasks (Resolved [example_task 1 False, example_task 2 True])) \<noteq> Number 2"
  by (simp add: fetchTasks_def)

subsection \<open>The derived views\<close>

text \<open>
  Claim C7. The two sections split the list they are given: the lengths add up to the
  length of the input, the two lists together hold every task exactly as often as the
  input does, no task is in both, each is a subsequence of the input (so the relative
  order is kept), and a task of the input is in the first list exactly when its status
  is false and in the second exactly when it is true. On three tasks with the statuses
  false, true, false the first list holds the first and third and the second list the
  second task.
\<close>

theorem C7_partition_by_completion:
  "length (inProgress ts) + length (completed ts) = length ts
   \<and> mset (inProgress ts) + mset (completed ts) = mset ts
   \<and> set (inProgress ts) \<inter> set (completed ts) = {}
   \<and> subseq (inProgress ts) ts \<and> subseq (completed ts) ts
   \<and> (\<forall>t \<in> set ts. (t \<in> set (inProgress ts)) = (\<not> status t)
                    \<and> (t \<in> set (completed ts)) = status t)
   \<and> (\<not> status a \<and> status b \<and> \<not> status c \<longrightarrow>
        inProgress [a, b, c] = [a, c] \<and> completed [a, b, c] = [b])"
proof -
  have len: "length (inProgress ts) + length (completed ts) = length ts"
    unfolding inProgress_def completed_def
    using sum_length_filter_compl [of status ts] by simp
  have ms: "mset (inProgress ts) + mset (completed ts) = mset ts"
    unfolding inProgress_def completed_def by (induction ts) simp_all
  have disj: "set (inProgress ts) \<inter> set (completed ts) = {}"
    unfolding inProgress_def completed_def by auto
  have sub: "subseq (inProgress ts) ts" "subseq (completed ts) ts"
    unfolding inProgress_def completed_def by simp_all
  have mem: "\<forall>t \<in> set ts. (t \<in> set (inProgress ts)) = (\<not> status t)
                    \<and> (t \<in> set (completed ts)) = status t"
    unfolding inProgress_def completed_def by simp
  have ex: "\<not> status a \<and> status b \<and> \<not> status c \<longrightarrow>
        inProgress [a, b, c] = [a, c] \<and> completed [a, b, c] = [b]"
    unfolding inProgress_def completed_def by simp
  from len ms disj sub mem ex show ?thesis by blast
qed

theorem C7_partition_witness:
  "map task_id (inProgress [example_task 1 False, example_task 2 True, example_task 3 False])
     = [1, 3]
   \<and> map task_id (completed [example_task 1 False, example_task 2 True, example_task 3 False])
     = [2]"
proof -
  have st: "\<not> status (example_task 1 False) \<and> status (example_task 2 True)
            \<and> \<not> status (example_task 3 False)"
    by (simp add: example_task_def)
  have ids: "task_id (example_task 1 False) = 1" "task_id (example_task 2 True) = 2"
    "task_id (example_task 3 False) = 3"
    by (simp_all add: example_task_def)
  from st ids
    C7_partition_by_completion [of "[example_task 1 False, example_task 2 True, example_task 3 False]"
      "example_task 1 False" "example_task 2 True" "example_task 3 False"]
  show ?thesis by simp
qed

text \<open>
  Claim C8. With no category selected (the "All" entry, whose id is null) the filtered
  list is the whole list, unchanged; with a category selected it is the list of the
  tasks whose \<^verbatim>\<open>category_id\<close> is that category, in their order.
\<close>

theorem C8_by_category:
  "filteredTasks None ts = ts
   \<and> length (filteredTasks None ts) = length ts
   \<and> filteredTasks (Some c) ts = filter (\<lambda>t. category_id t = Some c) ts
   \<and> set (filteredTasks (Some c) ts) = {t \<in> set ts. category_id t = Some c}
   \<and> subseq (filteredTasks (Some c) ts) ts"
  by (auto simp: filteredTasks_def)

section \<open>Properties of the expense form\<close>

declare string_of_nat.simps [simp del]

declare day_carry.simps [simp del]

subsection \<open>Digit strings\<close>

lemma is_digit_not_special:
  "is_digit c \<Longrightarrow> c \<noteq> CHR '','' \<and> c \<noteq> CHR '' '' \<and> c \<noteq> CHR ''+'' \<and> c \<noteq> CHR ''-''
     \<and> c \<noteq> CHR ''x'' \<and> c \<noteq> CHR ''X'' \<and> \<not> is_ws c"
  by (auto simp: is_digit_def is_ws_def)

lemma digit_char_table:
  "list_all (\<lambda>n. is_digit (digit_char n) \<and> digit_value (digit_char n) = n) [0..<10]"
  by code_simp

lemma digit_char_digit: "n < 10 \<Longrightarrow> is_digit (digit_char n) \<and> digit_value (digit_char n) = n"
  using digit_char_table by (simp add: list_all_iff)

lemma string_of_nat_digits: "list_all is_digit (string_of_nat n) \<and> string_of_nat n \<noteq> []"
proof (induction n rule: string_of_nat.induct)
  case (1 n)
  show ?case
  proof (cases "n < 10")
    case True
    then show ?thesis by (simp add: string_of_nat.simps [of n] digit_char_digit)
  next
    case False
    with "1" show ?thesis by (simp add: string_of_nat.simps [of n] digit_char_digit)
  qed
qed

lemma digits_value_snoc: "digits_value r (ds @ [c]) = r * digits_value r ds + digit_value c"
  by (simp add: digits_value_def)

lemma digits_value_string_of_nat: "digits_value 10 (string_of_nat n) = n"
proof (induction n rule: string_of_nat.induct)
  case (1 n)
  show ?case
  proof (cases "n < 10")
    case True
    then show ?thesis
      by (simp add: string_of_nat.simps [of n] digit_char_digit digits_value_def)
  next
    case False
    with "1" show ?thesis
      by (simp add: string_of_nat.simps [of n] digit_char_digit digits_value_snoc)
  qed
qed

lemma list_all_digit_set: "list_all is_digit s \<Longrightarrow> c \<in> set s \<Longrightarrow> is_digit c"
  by (simp add: list_all_iff)

lemma digits_no_ws: "list_all is_digit s \<Longrightarrow> list_all (\<lambda>c. \<not> is_ws c) s"
  by (simp add: list_all_iff is_digit_not_special)

lemma dropWhile_no_ws: "list_all (\<lambda>c. \<not> is_ws c) xs \<Longrightarrow> dropWhile is_ws xs = xs"
  by (cases xs) simp_all

lemma trim_no_ws: "list_all (\<lambda>c. \<not> is_ws c) s \<Longrightarrow> trim s = s"
  by (simp add: trim_def dropWhile_no_ws)

lemma trim_digits: "list_all is_digit s \<Longrightarrow> trim s = s"
  by (simp add: trim_no_ws digits_no_ws)

lemma trimStart_digits: "list_all is_digit s \<Longrightarrow> trimStart s = s"
  by (simp add: trimStart_def dropWhile_no_ws digits_no_ws)

lemma takeWhile_digits:
  "list_all is_digit s \<Longrightarrow> takeWhile is_digit s = s \<and> dropWhile is_digit s = []"
  by (simp add: list_all_iff)

subsection \<open>Number conversions on digit strings\<close>

lemma js_integer_not_NaN: "js_integer v \<noteq> NaN"
  by (simp add: js_integer_def)

lemma digits_unsigned_literal:
  assumes "list_all is_digit s" "s \<noteq> []"
  shows "str_unsigned_decimal_literal s"
  using assms by (simp add: str_unsigned_decimal_literal_def takeWhile_digits Let_def)

lemma digits_numeric_literal:
  assumes "list_all is_digit s" "s \<noteq> []"
  shows "str_numeric_literal s"
proof -
  obtain c r where s: "s = c # r" using assms(2) by (cases s) auto
  with assms(1) have c: "c \<noteq> CHR ''+''" "c \<noteq> CHR ''-''"
    by (simp_all add: is_digit_not_special)
  from digits_unsigned_literal [OF assms] have "str_decimal_literal s"
    using s c by (simp add: str_decimal_literal_def)
  then show ?thesis by (simp add: str_numeric_literal_def)
qed

lemma minus_digits_numeric_literal:
  assumes "list_all is_digit s" "s \<noteq> []"
  shows "str_numeric_literal (CHR ''-'' # s)"
  using digits_unsigned_literal [OF assms]
  by (simp add: str_numeric_literal_def str_decimal_literal_def)

lemma ToNumber_digits:
  assumes "list_all is_digit s" "s \<noteq> []"
  shows "ToNumber (Some s) = js_integer (int (digits_value 10 s))"
  using assms by (simp add: ToNumber_def trim_digits digits_numeric_literal Let_def)

lemma parseInt_digits:
  assumes "list_all is_digit s" "s \<noteq> []"
  shows "parseInt (Some s) = js_integer (int (digits_value 10 s))"
proof -
  obtain c r where s: "s = c # r" using assms(2) by (cases s) auto
  with assms(1) have c: "c \<noteq> CHR ''+''" "c \<noteq> CHR ''-''"
    by (simp_all add: is_digit_not_special)
  have nohex: "\<not> (2 \<le> length s \<and> s ! 0 = CHR ''0'' \<and> (s ! 1 = CHR ''x'' \<or> s ! 1 = CHR ''X''))"
  proof
    assume h: "2 \<le> length s \<and> s ! 0 = CHR ''0'' \<and> (s ! 1 = CHR ''x'' \<or> s ! 1 = CHR ''X'')"
    then have "s ! 1 \<in> set s" by simp
    with assms(1) have "is_digit (s ! 1)" by (rule list_all_digit_set)
    with h show False by (auto simp: is_digit_not_special)
  qed
  have hd: "hd s = c" using s by simp
  show ?thesis
    unfolding parseInt_def
    using assms nohex c hd
    by (auto simp add: trimStart_digits takeWhile_digits Let_def)
qed

lemma digits_not_NaN:
  assumes "list_all is_digit s" "s \<noteq> []"
  shows "\<not> isNaN s"
  using assms by (simp add: isNaN_def ToNumber_digits js_integer_not_NaN)

lemma negative_amount_not_NaN:
  assumes "list_all is_digit s" "s \<noteq> []"
  shows "\<not> isNaN (CHR ''-'' # s)"
proof -
  have m: "\<not> is_ws (CHR ''-'')" "\<not> is_digit (CHR ''-'')"
    by (simp_all add: is_ws_def is_digit_def)
  have "list_all (\<lambda>c. \<not> is_ws c) (CHR ''-'' # s)"
    using digits_no_ws [OF assms(1)] m(1) by simp
  then have t: "trim (CHR ''-'' # s) = CHR ''-'' # s" by (rule trim_no_ws)
  have "ToNumber (Some (CHR ''-'' # s)) = js_integer (- int (digits_value 10 s))"
    using assms(1) m(2) minus_digits_numeric_literal [OF assms]
    by (simp add: ToNumber_def t Let_def)
  then show ?thesis by (simp add: isNaN_def js_integer_not_NaN)
qed

subsection \<open>Splitting the formatted date\<close>

lemma remove1_comma:
  "CHR '','' \<notin> set xs \<Longrightarrow> remove1 (CHR '','') (xs @ CHR '','' # ys) = xs @ ys"
  by (simp add: remove1_append)

lemma split_on_last: "c \<notin> set xs \<Longrightarrow> split_on c xs = [xs]"
  by (induction xs) auto

lemma split_on_first: "c \<notin> set xs \<Longrightarrow> split_on c (xs @ c # ys) = xs # split_on c ys"
  by (induction xs) auto

lemma months_table:
  "list_all (\<lambda>m. element months m = Some (months ! m)
      \<and> CHR '','' \<notin> set (months ! m) \<and> CHR '' '' \<notin> set (months ! m)
      \<and> indexOf months (Some (months ! m)) = int m) [0..<12]"
  by code_simp

lemma months_nth:
  assumes "m < 12"
  shows "element months m = Some (months ! m)"
    and "CHR '','' \<notin> set (months ! m)"
    and "CHR '' '' \<notin> set (months ! m)"
    and "indexOf months (Some (months ! m)) = int m"
  using months_table assms by (simp_all add: list_all_iff)

lemma day_carry_valid:
  "1 \<le> d \<Longrightarrow> int d \<le> days_in_month y m \<Longrightarrow> day_carry y m (int d) = Date y m d"
  by (simp add: day_carry.simps [of y m "int d"])

lemma days_in_month_le: "days_in_month y m \<le> 31"
  by (simp add: days_in_month_def)

lemma formatDate_parts:
  assumes "m < 12" "0 \<le> y"
  shows "split_on (CHR '' '') (remove1 (CHR '','') (formatDate (Date y m d)))
           = [months ! m, string_of_nat d, string_of_nat (nat y)]"
proof -
  let ?mon = "months ! m" and ?D = "string_of_nat d" and ?Y = "string_of_nat (nat y)"
  have D: "CHR '','' \<notin> set ?D" "CHR '' '' \<notin> set ?D"
    using string_of_nat_digits [of d] by (auto simp: list_all_iff dest: is_digit_not_special)
  have Y: "CHR '' '' \<notin> set ?Y"
    using string_of_nat_digits [of "nat y"] by (auto simp: list_all_iff dest: is_digit_not_special)
  have fmt: "formatDate (Date y m d) = (?mon @ CHR '' '' # ?D) @ CHR '','' # CHR '' '' # ?Y"
    using assms by (simp add: formatDate_def months_nth(1) string_of_int_def)
  have "remove1 (CHR '','') (formatDate (Date y m d)) = (?mon @ CHR '' '' # ?D) @ CHR '' '' # ?Y"
    unfolding fmt using months_nth(2) [OF assms(1)] D(1) by (subst remove1_comma) simp_all
  then have "remove1 (CHR '','') (formatDate (Date y m d))
               = ?mon @ CHR '' '' # (?D @ CHR '' '' # ?Y)"
    by simp
  then show ?thesis
    using months_nth(3) [OF assms(1)] D(2) Y
    by (simp add: split_on_first split_on_last)
qed

lemma formatDate_example: "formatDate (Date 2024 11 10) = ''Dec 10, 2024''"
  by (simp add: formatDate_def element_def months_def string_of_int_def
      string_of_nat.simps digit_char_def)

lemma amount_example: "trim ''Lunch'' = ''Lunch'' \<and> trim ''-5'' = ''-5'' \<and> \<not> isNaN ''-5''"
proof -
  have d: "list_all is_digit ''5''" by (simp add: is_digit_def)
  have "trim ''Lunch'' = ''Lunch''" "trim ''-5'' = ''-5''"
    by (simp_all add: trim_def is_ws_def)
  with negative_amount_not_NaN [OF d] show ?thesis by simp
qed

subsection \<open>Saving an expense\<close>

text \<open>
  Claim C4, as the code has it. \<^verbatim>\<open>handleSave\<close> makes no call of the remote API exactly
  when the trimmed title is empty, the trimmed amount is empty, or the amount is not a
  numeric literal (\<^verbatim>\<open>isNaN\<close>); in that case all it does is show one error alert, so no
  state is changed. The check does not ask for a non-negative or finite amount: a
  non-empty string of digits passes it, and so does the same string with a minus sign
  in front.
\<close>

theorem C4_create_validation:
  "(filter is_remote (handleSave save editing title amount category selectedDate) = [])
     = (trim title = [] \<or> trim amount = [] \<or> isNaN amount)
   \<and> (trim title = [] \<or> trim amount = [] \<or> isNaN amount \<longrightarrow>
        handleSave save editing title amount category selectedDate
          = [Alert ''Error'' (if trim title = [] then ''Please enter an expense title''
                             else ''Please enter a valid amount'')])
   \<and> (ds \<noteq> [] \<and> list_all is_digit ds \<longrightarrow> \<not> isNaN ds \<and> \<not> isNaN (CHR ''-'' # ds))"
proof -
  have a: "(filter is_remote (handleSave save editing title amount category selectedDate) = [])
     = (trim title = [] \<or> trim amount = [] \<or> isNaN amount)"
    by (simp add: handleSave_def Let_def split: option.split promise.split)
  have b: "trim title = [] \<or> trim amount = [] \<or> isNaN amount \<longrightarrow>
        handleSave save editing title amount category selectedDate
          = [Alert ''Error'' (if trim title = [] then ''Please enter an expense title''
                             else ''Please enter a valid amount'')]"
    by (simp add: handleSave_def)
  have c: "ds \<noteq> [] \<and> list_all is_digit ds \<longrightarrow> \<not> isNaN ds \<and> \<not> isNaN (CHR ''-'' # ds)"
    using digits_not_NaN [of ds] negative_amount_not_NaN [of ds] by blast
  from a b c show ?thesis by blast
qed

theorem C4_create_validation_witness:
  "handleSave (Resolved ()) None [] ''10'' ''general'' (Date 2024 11 10)
     = [Alert ''Error'' ''Please enter an expense title'']
   \<and> \<not> isNaN ''10'' \<and> \<not> isNaN ''-10''"
proof -
  have "trim [] = []" by (simp add: trim_def)
  moreover have "''10'' \<noteq> [] \<and> list_all is_digit ''10''" by (simp add: is_digit_def)
  ultimately show ?thesis
    using C4_create_validation
      [of "Resolved ()" None "[]" "''10''" "''general''" "Date 2024 11 10" "''10''"]
    by simp
qed

text \<open>
  Claim C4 as stated fails: it has every draft whose amount is not a non-negative
  number rejected before any remote call. The new expense with the title "Lunch" and
  the amount "-5" passes the check and is sent to \<^verbatim>\<open>api.createExpense\<close>.
\<close>

theorem C4_create_validation_counterexample:
  "filter is_remote (handleSave (Resolved ()) None ''Lunch'' ''-5'' ''general'' (Date 2024 11 10))
     = [Api_createExpense \<lparr>expense_title = ''Lunch'', expense_amount = ParseFloat ''-5'',
          expense_category = ''general'', expense_date = ''Dec 10, 2024''\<rparr>]"
  using amount_example by (simp add: handleSave_def formatDate_example)

subsection \<open>The date round trip\<close>

text \<open>
  Claim C10. For a calendar day with a four-digit year, the parser that initialises the
  edit screen reads the text \<^verbatim>\<open>formatDate\<close> prints back to the same year, month and day.
\<close>

theorem C10_expense_date_round_trip:
  assumes "1000 \<le> y" "y \<le> 9999" "m < 12" "1 \<le> d" "int d \<le> days_in_month y m"
  shows "parse_expense_date (formatDate (Date y m d)) = Some (Date y m d)
         \<and> selectedDate_initial now (Some (formatDate (Date y m d))) = Some (Date y m d)"
proof -
  have y0: "0 \<le> y" using assms(1) by simp
  have d31: "int d \<le> 31" using assms(5) days_in_month_le [of y m] by linarith
  have year: "ToNumber (Some (string_of_nat (nat y))) = Integer y"
    using assms(1,2) string_of_nat_digits [of "nat y"]
    by (simp add: ToNumber_digits digits_value_string_of_nat js_integer_def)
  have day: "parseInt (Some (string_of_nat d)) = Integer (int d)"
    using d31 string_of_nat_digits [of d]
    by (simp add: parseInt_digits digits_value_string_of_nat js_integer_def)
  have new: "new_Date (Integer y) (int m) (Integer (int d)) = Some (Date y m d)"
    using assms d31 by (simp add: new_Date_def day_carry_valid)
  have parse: "parse_expense_date (formatDate (Date y m d)) = Some (Date y m d)"
    unfolding parse_expense_date_def formatDate_parts [OF assms(3) y0]
    by (simp add: element_def months_nth(4) [OF assms(3)] year day new)
  have "formatDate (Date y m d) \<noteq> []"
    using assms(3) by (simp add: formatDate_def months_nth(1))
  with parse show ?thesis by (simp add: selectedDate_initial_def)
qed

theorem C10_expense_date_round_trip_witness:
  "formatDate (Date 2024 11 10) = ''Dec 10, 2024''
   \<and> parse_expense_date ''Dec 10, 2024'' = Some (Date 2024 11 10)"
  using C10_expense_date_round_trip [of 2024 11 10] formatDate_example
  by (simp add: days_in_month_def)

end
